theory Spec2Isabelle
  imports Complex_Main
begin

section \<open>The library tree builder: \<open>fetchMusic\<close> (bin/index.js, lines 181-232)\<close>

subsection \<open>Input records\<close>

text \<open>
  The catalog answers with a JSON array. Each entry is read through the fields
  \<open>file\<close>, \<open>metadata\<close>, \<open>type\<close> and \<open>name\<close>; the metadata through \<open>artist\<close>,
  \<open>album\<close>, \<open>title\<close> and \<open>year\<close>. A field of an entry that is absent reads as
  \<open>undefined\<close> and is \<open>None\<close> here; a field that is present holds a string (the
  catalog's contract), and the metadata, when present, is an object.

  The three fields of the metadata that go through \<open>||\<close> are kept wider: besides a
  string, a field may hold one of the falsy values that JSON can carry in its place,
  \<open>null\<close>, \<open>false\<close> and \<open>0\<close>, or be absent.
\<close>

datatype field = Absent | JsonNull | JsonFalse | JsonZero | JsonString string

record Metadata =
  artist :: field
  album :: field
  title :: field
  year :: field

record Item =
  item_file :: "string option"
  item_metadata :: "Metadata option"
  item_type :: "string option"
  item_name :: "string option"

subsection \<open>The tree\<close>

text \<open>
  The tree is made of object literals whose \<open>children\<close> field is again an object used
  as a dictionary from names to nodes. A dictionary is a map from strings to nodes. The
  node stored at the top level is written by two places of the source: the artist literal
  (with \<open>extended: false\<close>) and the directory literal (which has no \<open>extended\<close> field, hence
  the option).
\<close>

record TrackNode =
  track_name :: string
  track_file :: string

record AlbumNode =
  album_name :: string
  album_extended :: bool
  album_children :: "string \<rightharpoonup> TrackNode"

record TopNode =
  node_name :: string
  node_extended :: "bool option"
  node_children :: "string \<rightharpoonup> AlbumNode"

record MusicData =
  root_extended :: bool
  root_children :: "string \<rightharpoonup> TopNode"

subsection \<open>What the runtime contributes\<close>

text \<open>
  \<open>path.basename\<close> with one argument, on a POSIX host: trailing slashes are skipped and
  the text after the last remaining slash is returned; a path made of slashes only, or the
  empty path, gives the empty string.
\<close>

definition basename :: "string \<Rightarrow> string" where
  "basename p =
     rev (takeWhile (\<lambda>c. c \<noteq> CHR ''/'') (dropWhile (\<lambda>c. c = CHR ''/'') (rev p)))"

text \<open>
  An object literal \<open>{}\<close> inherits from \<open>Object.prototype\<close>. Reading \<open>obj[k]\<close> for a key
  that the object does not own therefore does not always give \<open>undefined\<close>: for the
  twelve names below it gives a function (or, for \<open>__proto__\<close>, the prototype object),
  which is truthy and has no \<open>children\<close> property.
\<close>

definition object_prototype_keys :: "string list" where
  "object_prototype_keys =
     [''constructor'', ''__defineGetter__'', ''__defineSetter__'', ''hasOwnProperty'',
      ''__lookupGetter__'', ''__lookupSetter__'', ''isPrototypeOf'',
      ''propertyIsEnumerable'', ''toString'', ''valueOf'', ''__proto__'',
      ''toLocaleString'']"

datatype 'a property = Own 'a | Inherited | Undefined

definition get_property :: "(string \<rightharpoonup> 'a) \<Rightarrow> string \<Rightarrow> 'a property" where
  "get_property obj k =
     (case obj k of
        Some v \<Rightarrow> Own v
      | None \<Rightarrow> if k \<in> set object_prototype_keys then Inherited else Undefined)"

text \<open>
  The ways in which the loop over the entries does not run to its end. \<open>TypeError\<close> is
  the exception of the runtime for a property read on \<open>undefined\<close> and for
  \<open>path.basename\<close> of a non-string; \<open>fetchMusic\<close> catches it, logs it and leaves the
  tree widget as it was. \<open>PrototypeReplaced\<close> is not an exception: the assignment
  \<open>musicdata.children[dirName] = ...\<close> with \<open>dirName\<close> equal to \<open>__proto__\<close> runs the
  setter of \<open>Object.prototype\<close>, which stores no entry and makes the new literal the
  prototype of the dictionary. What later reads see from there on is not covered by the
  types above, so the embedding stops there and says so; every statement about a built
  tree below is about a run that ends with \<open>Inr\<close>.
\<close>

datatype failure = TypeError | PrototypeReplaced

subsection \<open>The body of the loop\<close>

text \<open>
  \<open>a || b\<close> on a field of the metadata: the empty string, \<open>null\<close>, \<open>false\<close>, \<open>0\<close> and
  \<open>undefined\<close> are falsy and give \<open>b\<close>; a non-empty string gives itself.
\<close>

definition or_else :: "field \<Rightarrow> string \<Rightarrow> string" where
  "or_else v d = (case v of JsonString s \<Rightarrow> if s = [] then d else s | _ \<Rightarrow> d)"

text \<open>\<open>item.file\<close> as a condition: an absent field and the empty string are falsy.\<close>

definition truthy :: "string option \<Rightarrow> bool" where
  "truthy v = (case v of None \<Rightarrow> False | Some s \<Rightarrow> s \<noteq> [])"

text \<open>Lines 196-202: \<open>if (!musicdata.children[artist]) musicdata.children[artist] = {...}\<close>.\<close>

definition ensure_artist :: "MusicData \<Rightarrow> string \<Rightarrow> MusicData" where
  "ensure_artist musicdata a =
     (case get_property (root_children musicdata) a of
        Undefined \<Rightarrow>
          musicdata\<lparr>root_children := (root_children musicdata)
            (a \<mapsto> \<lparr>node_name = a, node_extended = Some False, node_children = Map.empty\<rparr>)\<rparr>
      | _ \<Rightarrow> musicdata)"

text \<open>
  Lines 204-210. \<open>musicdata.children[artist].children\<close> is the dictionary of an own
  entry; for an inherited value it is \<open>undefined\<close>, and indexing \<open>undefined\<close> throws.
\<close>

definition ensure_album :: "MusicData \<Rightarrow> string \<Rightarrow> string \<Rightarrow> failure + MusicData" where
  "ensure_album musicdata a al =
     (case get_property (root_children musicdata) a of
        Own artistNode \<Rightarrow>
          (case get_property (node_children artistNode) al of
             Undefined \<Rightarrow>
               Inr (musicdata\<lparr>root_children := (root_children musicdata)
                 (a \<mapsto> artistNode\<lparr>node_children := (node_children artistNode)
                    (al \<mapsto> \<lparr>album_name = al, album_extended = False,
                             album_children = Map.empty\<rparr>)\<rparr>)\<rparr>)
           | _ \<Rightarrow> Inr musicdata)
      | _ \<Rightarrow> Inl TypeError)"

text \<open>
  Lines 212-217. The track literal is stored only when the title reads as falsy in the
  album's dictionary: an entry that is already there is kept.
\<close>

definition ensure_track ::
  "MusicData \<Rightarrow> string \<Rightarrow> string \<Rightarrow> string \<Rightarrow> string \<Rightarrow> failure + MusicData" where
  "ensure_track musicdata a al t f =
     (case get_property (root_children musicdata) a of
        Own artistNode \<Rightarrow>
          (case get_property (node_children artistNode) al of
             Own albumNode \<Rightarrow>
               (case get_property (album_children albumNode) t of
                  Undefined \<Rightarrow>
                    Inr (musicdata\<lparr>root_children := (root_children musicdata)
                      (a \<mapsto> artistNode\<lparr>node_children := (node_children artistNode)
                         (al \<mapsto> albumNode\<lparr>album_children := (album_children albumNode)
                            (t \<mapsto> \<lparr>track_name = t, track_file = f\<rparr>)\<rparr>)\<rparr>)\<rparr>)
                | _ \<Rightarrow> Inr musicdata)
           | _ \<Rightarrow> Inl TypeError)
      | _ \<Rightarrow> Inl TypeError)"

text \<open>Lines 218-224: the directory literal is assigned without a test.\<close>

definition add_directory :: "MusicData \<Rightarrow> string option \<Rightarrow> failure + MusicData" where
  "add_directory musicdata n =
     (case n of
        None \<Rightarrow> Inl TypeError
      | Some p \<Rightarrow>
          (let dirName = basename p in
           if dirName = ''__proto__'' then Inl PrototypeReplaced
           else Inr (musicdata\<lparr>root_children := (root_children musicdata)
             (dirName \<mapsto> \<lparr>node_name = dirName, node_extended = None,
                          node_children = Map.empty\<rparr>)\<rparr>)))"

text \<open>The resolved fields of lines 191-193.\<close>

definition resolve_artist :: "Metadata \<Rightarrow> string" where
  "resolve_artist m = or_else (artist m) ''Unknown Artist''"

definition resolve_album :: "Metadata \<Rightarrow> string" where
  "resolve_album m = or_else (album m) ''Unknown Album''"

definition resolve_title :: "string \<Rightarrow> Metadata \<Rightarrow> string" where
  "resolve_title f m = or_else (title m) (basename f)"

text \<open>The callback of \<open>data.forEach\<close>, lines 189-225.\<close>

definition forEach_body :: "MusicData \<Rightarrow> Item \<Rightarrow> failure + MusicData" where
  "forEach_body musicdata item =
     (if truthy (item_file item) \<and> item_metadata item \<noteq> None then
        (let f = the (item_file item); m = the (item_metadata item);
             a = resolve_artist m; al = resolve_album m; t = resolve_title f m
         in case ensure_album (ensure_artist musicdata a) a al of
              Inl e \<Rightarrow> Inl e
            | Inr musicdata' \<Rightarrow> ensure_track musicdata' a al t f)
      else if item_type item = Some ''directory'' then add_directory musicdata (item_name item)
      else Inr musicdata)"

fun forEach :: "Item list \<Rightarrow> MusicData \<Rightarrow> failure + MusicData" where
  "forEach [] musicdata = Inr musicdata"
| "forEach (item # items) musicdata =
     (case forEach_body musicdata item of
        Inl e \<Rightarrow> Inl e
      | Inr musicdata' \<Rightarrow> forEach items musicdata')"

text \<open>
  \<open>fetchMusic\<close> on the array the catalog returned: the tree handed to \<open>tree.setData\<close>,
  or the failure that the \<open>catch\<close> logs.
\<close>

definition fetchMusic :: "Item list \<Rightarrow> failure + MusicData" where
  "fetchMusic data = forEach data \<lparr>root_extended = True, root_children = Map.empty\<rparr>"

subsection \<open>Reading the tree\<close>

definition is_track :: "Item \<Rightarrow> bool" where
  "is_track item = (truthy (item_file item) \<and> item_metadata item \<noteq> None)"

definition is_directory :: "Item \<Rightarrow> bool" where
  "is_directory item = (\<not> is_track item \<and> item_type item = Some ''directory'')"

definition dir_key :: "Item \<Rightarrow> string option" where
  "dir_key item = map_option basename (item_name item)"

definition item_artist :: "Item \<Rightarrow> string" where
  "item_artist item = resolve_artist (the (item_metadata item))"

definition item_album :: "Item \<Rightarrow> string" where
  "item_album item = resolve_album (the (item_metadata item))"

definition item_title :: "Item \<Rightarrow> string" where
  "item_title item = resolve_title (the (item_file item)) (the (item_metadata item))"

definition album_at :: "MusicData \<Rightarrow> string \<Rightarrow> string \<Rightarrow> AlbumNode option" where
  "album_at musicdata a al =
     (case root_children musicdata a of
        None \<Rightarrow> None
      | Some artistNode \<Rightarrow> node_children artistNode al)"

definition track_at :: "MusicData \<Rightarrow> string \<Rightarrow> string \<Rightarrow> string \<Rightarrow> TrackNode option" where
  "track_at musicdata a al t =
     (case album_at musicdata a al of
        None \<Rightarrow> None
      | Some albumNode \<Rightarrow> album_children albumNode t)"

text \<open>
  Every node is stored under its own name: the invariant behind the labels of a path.
\<close>

definition labelled :: "MusicData \<Rightarrow> bool" where
  "labelled musicdata =
     (\<forall>a artistNode. root_children musicdata a = Some artistNode \<longrightarrow>
        node_name artistNode = a \<and>
        (\<forall>al albumNode. node_children artistNode al = Some albumNode \<longrightarrow>
           album_name albumNode = al \<and>
           (\<forall>t trackNode. album_children albumNode t = Some trackNode \<longrightarrow>
              track_name trackNode = t)))"

text \<open>
  The words of the specification for the three defaults: a field counts as given when it
  is truthy, and a field that is not given is replaced.
\<close>

definition falsy :: "field \<Rightarrow> bool" where
  "falsy v = (case v of JsonString s \<Rightarrow> s = [] | _ \<Rightarrow> True)"

definition the_string :: "field \<Rightarrow> string" where
  "the_string v = (case v of JsonString s \<Rightarrow> s | _ \<Rightarrow> [])"

text \<open>The two shapes of entry of the catalog's contract, for concrete inputs.\<close>

definition field_of :: "string option \<Rightarrow> field" where
  "field_of v = (case v of None \<Rightarrow> Absent | Some s \<Rightarrow> JsonString s)"

definition track_item ::
  "string \<Rightarrow> string option \<Rightarrow> string option \<Rightarrow> string option \<Rightarrow> Item" where
  "track_item f a al t =
     \<lparr>item_file = Some f,
      item_metadata =
        Some \<lparr>artist = field_of a, album = field_of al, title = field_of t, year = Absent\<rparr>,
      item_type = None, item_name = None\<rparr>"

definition directory_item :: "string \<Rightarrow> Item" where
  "directory_item n =
     \<lparr>item_file = None, item_metadata = None, item_type = Some ''directory'',
      item_name = Some n\<rparr>"

section \<open>The playback controller and the progress bar (bin/index.js, lines 13-130)\<close>

subsection \<open>State\<close>

text \<open>
  The first five fields are the module's variables (lines 13-17). The others are the
  parts of the runtime and of the screen that the functions act on: the child processes
  created so far and the signals sent to them, the song path that the listeners of each
  child have closed over, the interval timers created so far and those still alive, the
  texts given to \<open>updateRecordBox\<close> (oldest first) and the last value given to
  \<open>progressBar.setPercent\<close> (the argument of the call, before the widget draws it). A
  child and a timer are named by their number of creation.

  Numbers are reals: \<open>songDuration\<close> is the finite number the prober printed,
  \<open>elapsedTime\<close> counts up from 0 in steps of 1, and the quotient of the two is taken
  exactly. \<open>NaN\<close> is the absent number of \<open>probe\<close> below; the infinities are not
  represented. The debug log and the console are not part of the state.
\<close>

record Player =
  currentAudio :: "nat option"
  isPlaying :: bool
  progressBarInterval :: "nat option"
  songDuration :: real
  elapsedTime :: real
  children_spawned :: nat
  signals_sent :: "(nat \<times> string) list"
  listeners :: "nat \<rightharpoonup> string"
  timers_created :: nat
  live_timers :: "nat set"
  recordbox :: "string list"
  gauge_percent :: "real option"

definition startup :: Player where
  "startup =
     \<lparr>currentAudio = None, isPlaying = False, progressBarInterval = None, songDuration = 0,
      elapsedTime = 0, children_spawned = 0, signals_sent = [], listeners = Map.empty,
      timers_created = 0, live_timers = {}, recordbox = [], gauge_percent = None\<rparr>"

subsection \<open>The runtime's operations\<close>

definition updateRecordBox :: "string \<Rightarrow> Player \<Rightarrow> Player" where
  "updateRecordBox content s = s\<lparr>recordbox := recordbox s @ [content]\<rparr>"

definition kill :: "nat \<Rightarrow> string \<Rightarrow> Player \<Rightarrow> Player" where
  "kill c sig s = s\<lparr>signals_sent := signals_sent s @ [(c, sig)]\<rparr>"

text \<open>\<open>clearInterval\<close> of \<open>null\<close>, or of a timer that is no longer alive, does nothing.\<close>

definition clearInterval :: "nat option \<Rightarrow> Player \<Rightarrow> Player" where
  "clearInterval h s =
     (case h of None \<Rightarrow> s | Some t \<Rightarrow> s\<lparr>live_timers := live_timers s - {t}\<rparr>)"

definition setInterval :: "Player \<Rightarrow> nat \<times> Player" where
  "setInterval s =
     (timers_created s,
      s\<lparr>live_timers := insert (timers_created s) (live_timers s),
        timers_created := Suc (timers_created s)\<rparr>)"

subsection \<open>\<open>getSongDuration\<close> (lines 68-83)\<close>

text \<open>
  What the synchronous run of the prober gives: \<open>ProbeThrows\<close> when the \<open>try\<close> block
  throws (the prober could not be run and there is no output to read), otherwise
  \<open>ProbeParsed\<close> with the result of \<open>parseFloat\<close> on the trimmed output, \<open>None\<close> for
  \<open>NaN\<close>.
\<close>

datatype probe = ProbeThrows | ProbeParsed "real option"

definition getSongDuration :: "probe \<Rightarrow> real" where
  "getSongDuration p =
     (case p of
        ProbeThrows \<Rightarrow> 0
      | ProbeParsed None \<Rightarrow> 0
      | ProbeParsed (Some duration) \<Rightarrow> duration)"

subsection \<open>\<open>startProgressBar\<close> (lines 85-101)\<close>

text \<open>The arrow function given to \<open>setInterval\<close>, lines 88-100.\<close>

definition interval_callback :: "Player \<Rightarrow> Player" where
  "interval_callback s =
     (if isPlaying s \<and> songDuration s > 0 then
        (let s1 = s\<lparr>elapsedTime := elapsedTime s + 1\<rparr>;
             percent = elapsedTime s1 / songDuration s1 * 100;
             s2 = s1\<lparr>gauge_percent := Some percent\<rparr>
         in if elapsedTime s2 \<ge> songDuration s2
            then clearInterval (progressBarInterval s2) s2
            else s2)
      else s)"

definition startProgressBar :: "Player \<Rightarrow> Player" where
  "startProgressBar s =
     (let s1 = s\<lparr>gauge_percent := Some 0\<rparr>;
          (t, s2) = setInterval s1
      in s2\<lparr>progressBarInterval := Some t\<rparr>)"

text \<open>
  One firing of timer \<open>t\<close>. Every timer runs the same callback, on the variables of the
  module; a timer that has been cleared does not fire.
\<close>

definition tick :: "nat \<Rightarrow> Player \<Rightarrow> Player" where
  "tick t s = (if t \<in> live_timers s then interval_callback s else s)"

subsection \<open>\<open>playSong\<close> (lines 27-66)\<close>

text \<open>
  \<open>spawn\<close> either returns a child object or throws. A player that cannot be started
  (no such program, say) is the first case: the child object is returned, and the failure
  arrives later as the child's \<open>error\<close> event, in place of an \<open>exit\<close> event.

  The function is one step of the state: the duration is computed synchronously, and
  after the \<open>await\<close> the rest of the body runs before any timer fires and before any
  \<open>exit\<close> event is delivered. The \<open>error\<close> event of a child that could not be started
  may be delivered in between; its listener writes the record box only, which the rest
  of the body does not touch, so delivering it after the step gives the same state.
\<close>

datatype spawn = ReturnsChild | Throws

definition playSong :: "string \<Rightarrow> spawn \<Rightarrow> probe \<Rightarrow> Player \<Rightarrow> Player" where
  "playSong songPath sp p s =
     (let s1 = (case currentAudio s of None \<Rightarrow> s | Some c \<Rightarrow> kill c ''SIGTERM'' s)
      in case sp of
           Throws \<Rightarrow> updateRecordBox (''Error fetching: '' @ basename songPath) s1
         | ReturnsChild \<Rightarrow>
             (let c = children_spawned s1;
                  s2 = s1\<lparr>currentAudio := Some c, children_spawned := Suc c\<rparr>;
                  s3 = s2\<lparr>isPlaying := True\<rparr>;
                  s4 = s3\<lparr>elapsedTime := 0\<rparr>;
                  s5 = updateRecordBox (''Now playing: '' @ basename songPath) s4;
                  s6 = s5\<lparr>listeners := (listeners s5)(c \<mapsto> songPath)\<rparr>;
                  s7 = s6\<lparr>songDuration := getSongDuration p\<rparr>
              in startProgressBar s7))"

text \<open>The listener of the \<open>error\<close> event of child \<open>c\<close>, lines 44-47.\<close>

definition child_error :: "nat \<Rightarrow> Player \<Rightarrow> Player" where
  "child_error c s =
     (case listeners s c of
        None \<Rightarrow> s
      | Some songPath \<Rightarrow> updateRecordBox (''Error playing: '' @ basename songPath) s)"

text \<open>
  The listener of the \<open>exit\<close> event of child \<open>c\<close>, lines 49-56. The exit code is \<open>null\<close>
  (here \<open>None\<close>) when a signal ended the process.
\<close>

definition child_exit :: "nat \<Rightarrow> int option \<Rightarrow> string option \<Rightarrow> Player \<Rightarrow> Player" where
  "child_exit c code signal s =
     (case listeners s c of
        None \<Rightarrow> s
      | Some songPath \<Rightarrow>
          (let s1 = (if code \<noteq> Some 0
                     then updateRecordBox (''Playback ended: '' @ basename songPath) s
                     else s);
               s2 = s1\<lparr>isPlaying := False\<rparr>
           in clearInterval (progressBarInterval s2) s2))"

subsection \<open>\<open>togglePlayPause\<close> (lines 114-130)\<close>

definition togglePlayPause :: "Player \<Rightarrow> Player" where
  "togglePlayPause s =
     (case currentAudio s of
        Some c \<Rightarrow>
          (let s1 = (if isPlaying s
                     then (kill c ''SIGSTOP'' s)\<lparr>isPlaying := False\<rparr>
                     else (kill c ''SIGCONT'' s)\<lparr>isPlaying := True\<rparr>)
           in updateRecordBox (if isPlaying s1 then ''Playing...'' else ''Paused'') s1)
      | None \<Rightarrow> updateRecordBox ''No audio playing'' s)"

section \<open>Facts about the tree builder\<close>

lemma forEach_append:
  "forEach (xs @ ys) musicdata =
     (case forEach xs musicdata of Inl e \<Rightarrow> Inl e | Inr musicdata' \<Rightarrow> forEach ys musicdata')"
  by (induction xs arbitrary: musicdata) (auto split: sum.splits)

lemma track_at_ensure_artist:
  "track_at (ensure_artist musicdata a) a' al' t' = track_at musicdata a' al' t'"
  by (simp add: ensure_artist_def get_property_def track_at_def album_at_def
      split: option.splits)

lemma track_at_ensure_album:
  "ensure_album musicdata a al = Inr musicdata' \<Longrightarrow>
     track_at musicdata' a' al' t' = track_at musicdata a' al' t'"
  by (auto simp: ensure_album_def get_property_def track_at_def album_at_def
      split: option.splits if_splits)

lemma track_at_ensure_track:
  "ensure_track musicdata a al t f = Inr musicdata' \<Longrightarrow>
     track_at musicdata' a' al' t' =
       (if a' = a \<and> al' = al \<and> t' = t \<and> track_at musicdata a al t = None
           \<and> t \<notin> set object_prototype_keys
        then Some \<lparr>track_name = t, track_file = f\<rparr>
        else track_at musicdata a' al' t')"
  by (auto simp: ensure_track_def get_property_def track_at_def album_at_def
      split: option.splits if_splits)

lemma track_at_add_directory:
  "add_directory musicdata n = Inr musicdata' \<Longrightarrow>
     track_at musicdata' a' al' t' =
       (if map_option basename n = Some a' then None else track_at musicdata a' al' t')"
  by (auto simp: add_directory_def track_at_def album_at_def Let_def
      split: option.splits if_splits)

lemma forEach_body_track:
  "is_track item \<Longrightarrow>
     forEach_body musicdata item =
       (case ensure_album (ensure_artist musicdata (item_artist item)) (item_artist item)
               (item_album item) of
          Inl e \<Rightarrow> Inl e
        | Inr musicdata' \<Rightarrow>
            ensure_track musicdata' (item_artist item) (item_album item) (item_title item)
              (the (item_file item)))"
  by (simp add: forEach_body_def is_track_def item_artist_def item_album_def item_title_def
      Let_def split: sum.splits)

lemma forEach_body_other:
  "\<not> is_track item \<Longrightarrow>
     forEach_body musicdata item =
       (if item_type item = Some ''directory'' then add_directory musicdata (item_name item)
        else Inr musicdata)"
  by (auto simp: forEach_body_def is_track_def)

lemma track_at_body:
  assumes "forEach_body musicdata item = Inr musicdata'"
  shows "track_at musicdata' a al t =
     (if is_track item then
        (if item_artist item = a \<and> item_album item = al \<and> item_title item = t
            \<and> track_at musicdata a al t = None \<and> t \<notin> set object_prototype_keys
         then Some \<lparr>track_name = t, track_file = the (item_file item)\<rparr>
         else track_at musicdata a al t)
      else if is_directory item \<and> dir_key item = Some a then None
      else track_at musicdata a al t)"
proof (cases "is_track item")
  case True
  with assms obtain m1 where
    m1: "ensure_album (ensure_artist musicdata (item_artist item)) (item_artist item)
           (item_album item) = Inr m1"
    and m2: "ensure_track m1 (item_artist item) (item_album item) (item_title item)
           (the (item_file item)) = Inr musicdata'"
    by (auto simp: forEach_body_track split: sum.splits)
  have "track_at m1 a' al' t' = track_at musicdata a' al' t'" for a' al' t'
    using track_at_ensure_album [OF m1] by (simp add: track_at_ensure_artist)
  with track_at_ensure_track [OF m2, of a al t] True show ?thesis
    by auto
next
  case False
  show ?thesis
  proof (cases "item_type item = Some ''directory''")
    case True
    with False assms have "add_directory musicdata (item_name item) = Inr musicdata'"
      by (simp add: forEach_body_other)
    from track_at_add_directory [OF this, of a al t] False True show ?thesis
      by (simp add: is_directory_def dir_key_def)
  next
    case ndir: False
    with False assms have "musicdata' = musicdata"
      by (simp add: forEach_body_other)
    with False ndir show ?thesis by (simp add: is_directory_def)
  qed
qed


lemma forEach_no_new_track:
  assumes "forEach xs musicdata = Inr musicdata'"
    and "track_at musicdata a al t = None"
    and "\<forall>x\<in>set xs. is_track x \<longrightarrow>
           \<not> (item_artist x = a \<and> item_album x = al \<and> item_title x = t)"
  shows "track_at musicdata' a al t = None"
  using assms
proof (induction xs arbitrary: musicdata)
  case Nil
  then show ?case by simp
next
  case (Cons x xs)
  from Cons.prems(1) obtain m1 where
    m1: "forEach_body musicdata x = Inr m1" and rest: "forEach xs m1 = Inr musicdata'"
    by (auto split: sum.splits)
  from Cons.prems(2,3) have "track_at m1 a al t = None"
    by (auto simp: track_at_body [OF m1] is_directory_def)
  with Cons.IH [OF rest] Cons.prems(3) show ?case by simp
qed

lemma forEach_keeps_track:
  assumes "forEach ys musicdata = Inr musicdata'"
    and "track_at musicdata a al t = Some n"
    and "\<forall>y\<in>set ys. is_directory y \<longrightarrow> dir_key y \<noteq> Some a"
  shows "track_at musicdata' a al t = Some n"
  using assms
proof (induction ys arbitrary: musicdata)
  case Nil
  then show ?case by simp
next
  case (Cons y ys)
  from Cons.prems(1) obtain m1 where
    m1: "forEach_body musicdata y = Inr m1" and rest: "forEach ys m1 = Inr musicdata'"
    by (auto split: sum.splits)
  from Cons.prems(2,3) have "track_at m1 a al t = Some n"
    by (auto simp: track_at_body [OF m1] is_directory_def)
  with Cons.IH [OF rest] Cons.prems(3) show ?case by simp
qed

lemma forEach_split:
  assumes "forEach (xs @ r # ys) musicdata = Inr musicdata'"
  obtains m1 m2 where "forEach xs musicdata = Inr m1" and "forEach_body m1 r = Inr m2"
    and "forEach ys m2 = Inr musicdata'"
  using assms by (auto simp: forEach_append split: sum.splits)

lemma track_at_empty: "track_at \<lparr>root_extended = e, root_children = Map.empty\<rparr> a al t = None"
  by (simp add: track_at_def album_at_def)

lemma labelled_ensure_artist: "labelled musicdata \<Longrightarrow> labelled (ensure_artist musicdata a)"
  by (auto simp: labelled_def ensure_artist_def get_property_def split: option.splits)

lemma labelled_ensure_album:
  "labelled musicdata \<Longrightarrow> ensure_album musicdata a al = Inr musicdata' \<Longrightarrow> labelled musicdata'"
  unfolding labelled_def ensure_album_def get_property_def
  by (auto split: option.splits if_splits)

lemma labelled_ensure_track:
  "labelled musicdata \<Longrightarrow> ensure_track musicdata a al t f = Inr musicdata' \<Longrightarrow>
     labelled musicdata'"
  unfolding labelled_def ensure_track_def get_property_def
  by (auto split: option.splits if_splits)

lemma labelled_add_directory:
  "labelled musicdata \<Longrightarrow> add_directory musicdata n = Inr musicdata' \<Longrightarrow> labelled musicdata'"
  unfolding labelled_def add_directory_def Let_def
  by (auto split: option.splits if_splits)

lemma labelled_body:
  assumes "labelled musicdata" and "forEach_body musicdata item = Inr musicdata'"
  shows "labelled musicdata'"
proof (cases "is_track item")
  case True
  with assms(2) obtain m1 where
    m1: "ensure_album (ensure_artist musicdata (item_artist item)) (item_artist item)
           (item_album item) = Inr m1"
    and m2: "ensure_track m1 (item_artist item) (item_album item) (item_title item)
           (the (item_file item)) = Inr musicdata'"
    by (auto simp: forEach_body_track split: sum.splits)
  from labelled_ensure_album [OF labelled_ensure_artist [OF assms(1)] m1]
  show ?thesis by (rule labelled_ensure_track) (rule m2)
next
  case False
  with assms show ?thesis
    by (auto simp: forEach_body_other labelled_add_directory split: if_splits)
qed

lemma labelled_forEach:
  "labelled musicdata \<Longrightarrow> forEach xs musicdata = Inr musicdata' \<Longrightarrow> labelled musicdata'"
  by (induction xs arbitrary: musicdata) (auto split: sum.splits dest: labelled_body)

lemma labelled_fetchMusic: "fetchMusic data = Inr tree \<Longrightarrow> labelled tree"
  unfolding fetchMusic_def
  by (rule labelled_forEach [rotated]) (auto simp: labelled_def)

lemma forEach_origin:
  assumes "forEach xs musicdata = Inr musicdata'"
    and "track_at musicdata' a al t = Some n"
  shows "track_at musicdata a al t = Some n \<or>
     (\<exists>x\<in>set xs. is_track x \<and> item_artist x = a \<and> item_album x = al \<and> item_title x = t
        \<and> track_file n = the (item_file x))"
  using assms
proof (induction xs arbitrary: musicdata)
  case Nil
  then show ?case by simp
next
  case (Cons x xs)
  from Cons.prems(1) obtain m1 where
    m1: "forEach_body musicdata x = Inr m1" and rest: "forEach xs m1 = Inr musicdata'"
    by (auto split: sum.splits)
  from Cons.IH [OF rest Cons.prems(2)] show ?case
  proof
    assume "track_at m1 a al t = Some n"
    then show ?thesis
      by (auto simp: track_at_body [OF m1] split: if_splits)
  next
    assume "\<exists>x\<in>set xs. is_track x \<and> item_artist x = a \<and> item_album x = al
        \<and> item_title x = t \<and> track_file n = the (item_file x)"
    then show ?thesis by auto
  qed
qed

lemma root_ensure_artist:
  "k \<noteq> a \<Longrightarrow> root_children (ensure_artist musicdata a) k = root_children musicdata k"
  by (simp add: ensure_artist_def get_property_def split: option.splits)

lemma root_ensure_album:
  "ensure_album musicdata a al = Inr musicdata' \<Longrightarrow> k \<noteq> a \<Longrightarrow>
     root_children musicdata' k = root_children musicdata k"
  by (auto simp: ensure_album_def get_property_def split: option.splits if_splits)

lemma root_ensure_track:
  "ensure_track musicdata a al t f = Inr musicdata' \<Longrightarrow> k \<noteq> a \<Longrightarrow>
     root_children musicdata' k = root_children musicdata k"
  by (auto simp: ensure_track_def get_property_def split: option.splits if_splits)

lemma root_add_directory:
  "add_directory musicdata n = Inr musicdata' \<Longrightarrow>
     root_children musicdata' k =
       (if map_option basename n = Some k
        then Some \<lparr>node_name = k, node_extended = None, node_children = Map.empty\<rparr>
        else root_children musicdata k)"
  by (auto simp: add_directory_def Let_def split: option.splits if_splits)

lemma root_body:
  assumes "forEach_body musicdata item = Inr musicdata'"
    and "\<not> (is_track item \<and> item_artist item = k)"
  shows "root_children musicdata' k =
     (if is_directory item \<and> dir_key item = Some k
      then Some \<lparr>node_name = k, node_extended = None, node_children = Map.empty\<rparr>
      else root_children musicdata k)"
proof (cases "is_track item")
  case True
  with assms(1) obtain m1 where
    m1: "ensure_album (ensure_artist musicdata (item_artist item)) (item_artist item)
           (item_album item) = Inr m1"
    and m2: "ensure_track m1 (item_artist item) (item_album item) (item_title item)
           (the (item_file item)) = Inr musicdata'"
    by (auto simp: forEach_body_track split: sum.splits)
  from True assms(2) have ne: "k \<noteq> item_artist item" by auto
  from root_ensure_track [OF m2 ne] root_ensure_album [OF m1 ne] root_ensure_artist [OF ne] True
  show ?thesis by (simp add: is_directory_def)
next
  case False
  show ?thesis
  proof (cases "item_type item = Some ''directory''")
    case True
    with False assms(1) have "add_directory musicdata (item_name item) = Inr musicdata'"
      by (simp add: forEach_body_other)
    from root_add_directory [OF this, of k] False True show ?thesis
      by (simp add: is_directory_def dir_key_def)
  next
    case ndir: False
    with False assms(1) have "musicdata' = musicdata"
      by (simp add: forEach_body_other)
    with False ndir show ?thesis by (simp add: is_directory_def)
  qed
qed

lemma forEach_keeps_directory:
  assumes "forEach ys musicdata = Inr musicdata'"
    and "root_children musicdata k =
       Some \<lparr>node_name = k, node_extended = None, node_children = Map.empty\<rparr>"
    and "\<forall>y\<in>set ys. is_track y \<longrightarrow> item_artist y \<noteq> k"
  shows "root_children musicdata' k =
       Some \<lparr>node_name = k, node_extended = None, node_children = Map.empty\<rparr>"
  using assms
proof (induction ys arbitrary: musicdata)
  case Nil
  then show ?case by simp
next
  case (Cons y ys)
  from Cons.prems(1) obtain m1 where
    m1: "forEach_body musicdata y = Inr m1" and rest: "forEach ys m1 = Inr musicdata'"
    by (auto split: sum.splits)
  from Cons.prems(3) have "\<not> (is_track y \<and> item_artist y = k)" by simp
  from root_body [OF m1 this] Cons.prems(2)
  have "root_children m1 k =
      Some \<lparr>node_name = k, node_extended = None, node_children = Map.empty\<rparr>"
    by simp
  with Cons.IH [OF rest] Cons.prems(3) show ?case by simp
qed

lemma extended_ensure_artist:
  "map_option node_extended (root_children musicdata k) = Some e \<Longrightarrow>
     map_option node_extended (root_children (ensure_artist musicdata a) k) = Some e"
  by (auto simp: ensure_artist_def get_property_def split: option.splits)

lemma extended_ensure_album:
  "ensure_album musicdata a al = Inr musicdata' \<Longrightarrow>
     map_option node_extended (root_children musicdata k) = Some e \<Longrightarrow>
     map_option node_extended (root_children musicdata' k) = Some e"
  by (auto simp: ensure_album_def get_property_def split: option.splits if_splits)

lemma extended_ensure_track:
  "ensure_track musicdata a al t f = Inr musicdata' \<Longrightarrow>
     map_option node_extended (root_children musicdata k) = Some e \<Longrightarrow>
     map_option node_extended (root_children musicdata' k) = Some e"
  by (auto simp: ensure_track_def get_property_def split: option.splits if_splits)

lemma extended_add_directory:
  "add_directory musicdata n = Inr musicdata' \<Longrightarrow>
     map_option node_extended (root_children musicdata k) = Some None \<Longrightarrow>
     map_option node_extended (root_children musicdata' k) = Some None"
  by (auto simp: add_directory_def Let_def split: option.splits if_splits)

lemma extended_body:
  assumes "forEach_body musicdata item = Inr musicdata'"
    and "map_option node_extended (root_children musicdata k) = Some None"
  shows "map_option node_extended (root_children musicdata' k) = Some None"
proof (cases "is_track item")
  case True
  with assms(1) obtain m1 where
    m1: "ensure_album (ensure_artist musicdata (item_artist item)) (item_artist item)
           (item_album item) = Inr m1"
    and m2: "ensure_track m1 (item_artist item) (item_album item) (item_title item)
           (the (item_file item)) = Inr musicdata'"
    by (auto simp: forEach_body_track split: sum.splits)
  from extended_ensure_album [OF m1 extended_ensure_artist [OF assms(2)]]
  show ?thesis by (rule extended_ensure_track [OF m2])
next
  case False
  with assms show ?thesis
    by (auto simp: forEach_body_other split: if_splits dest: extended_add_directory)
qed

lemma extended_forEach:
  "forEach ys musicdata = Inr musicdata' \<Longrightarrow>
     map_option node_extended (root_children musicdata k) = Some None \<Longrightarrow>
     map_option node_extended (root_children musicdata' k) = Some None"
  by (induction ys arbitrary: musicdata) (auto split: sum.splits dest: extended_body)

lemma record_is_reachable:
  assumes "fetchMusic (xs @ r # ys) = Inr tree"
    and "is_track r"
    and "item_title r \<notin> set object_prototype_keys"
    and "\<forall>y\<in>set ys. is_directory y \<longrightarrow> dir_key y \<noteq> Some (item_artist r)"
  shows "\<exists>artistNode albumNode trackNode.
     root_children tree (item_artist r) = Some artistNode
     \<and> node_name artistNode = item_artist r
     \<and> node_children artistNode (item_album r) = Some albumNode
     \<and> album_name albumNode = item_album r
     \<and> album_children albumNode (item_title r) = Some trackNode
     \<and> track_name trackNode = item_title r
     \<and> (\<exists>x\<in>set (xs @ r # ys). is_track x \<and> item_artist x = item_artist r
           \<and> item_album x = item_album r \<and> item_title x = item_title r
           \<and> track_file trackNode = the (item_file x))"
proof -
  from assms(1) obtain m1 m2 where
    pre: "forEach xs \<lparr>root_extended = True, root_children = Map.empty\<rparr> = Inr m1"
    and step: "forEach_body m1 r = Inr m2"
    and post: "forEach ys m2 = Inr tree"
    unfolding fetchMusic_def by (rule forEach_split)
  from assms(2,3) obtain n where
    "track_at m2 (item_artist r) (item_album r) (item_title r) = Some n"
    by (cases "track_at m1 (item_artist r) (item_album r) (item_title r)")
      (auto simp: track_at_body [OF step])
  from forEach_keeps_track [OF post this assms(4)]
  have n: "track_at tree (item_artist r) (item_album r) (item_title r) = Some n" .
  then obtain artistNode albumNode where
    a: "root_children tree (item_artist r) = Some artistNode"
    and al: "node_children artistNode (item_album r) = Some albumNode"
    and t: "album_children albumNode (item_title r) = Some n"
    by (auto simp: track_at_def album_at_def split: option.splits)
  from labelled_fetchMusic [OF assms(1)] a al t
  have names: "node_name artistNode = item_artist r" "album_name albumNode = item_album r"
    "track_name n = item_title r"
    unfolding labelled_def by blast+
  from forEach_origin [OF assms(1) [unfolded fetchMusic_def] n]
  have "\<exists>x\<in>set (xs @ r # ys). is_track x \<and> item_artist x = item_artist r
      \<and> item_album x = item_album r \<and> item_title x = item_title r
      \<and> track_file n = the (item_file x)"
    by (simp add: track_at_empty)
  with a al t names show ?thesis by blast
qed

lemma resolved_fields:
  "resolve_artist m = (if falsy (artist m) then ''Unknown Artist'' else the_string (artist m))"
  "resolve_album m = (if falsy (album m) then ''Unknown Album'' else the_string (album m))"
  "resolve_title f m = (if falsy (title m) then basename f else the_string (title m))"
  by (simp_all add: resolve_artist_def resolve_album_def resolve_title_def or_else_def
      falsy_def the_string_def split: field.splits)

lemma falsy_as_absent:
  "falsy v \<Longrightarrow> or_else v d = or_else Absent d"
  by (simp add: or_else_def falsy_def split: field.splits)

section \<open>Claims about the tree builder\<close>

lemmas run_defs = fetchMusic_def forEach_body_def ensure_artist_def ensure_album_def
  ensure_track_def add_directory_def get_property_def object_prototype_keys_def basename_def
  resolve_artist_def resolve_album_def resolve_title_def or_else_def truthy_def Let_def
  track_item_def directory_item_def field_of_def

lemmas read_defs = track_at_def album_at_def is_track_def is_directory_def dir_key_def
  item_artist_def item_album_def item_title_def

text \<open>
  C1, as the code has it. Let \<open>r\<close> be the first record of the input with its resolved
  artist, album and title (any number of later records may repeat them). If the build
  completes (no exception, and no directory entry with the base name \<open>__proto__\<close>), the
  title is not a name inherited from \<open>Object.prototype\<close>, and no directory entry after
  \<open>r\<close> has the artist as its base name, then the built tree holds under that
  artist and album, for that title, the one TrackNode whose file path is the file path
  of \<open>r\<close>: the first record wins, because line 212 stores a track only where none is
  stored yet.
\<close>

theorem first_record_wins:
  assumes "fetchMusic (xs @ r # ys) = Inr tree"
    and "is_track r"
    and "item_title r \<notin> set object_prototype_keys"
    and "\<forall>x\<in>set xs. is_track x \<longrightarrow>
           \<not> (item_artist x = item_artist r \<and> item_album x = item_album r
               \<and> item_title x = item_title r)"
    and "\<forall>y\<in>set ys. is_directory y \<longrightarrow> dir_key y \<noteq> Some (item_artist r)"
  shows "track_at tree (item_artist r) (item_album r) (item_title r) =
     Some \<lparr>track_name = item_title r, track_file = the (item_file r)\<rparr>"
proof -
  from assms(1) obtain m1 m2 where
    pre: "forEach xs \<lparr>root_extended = True, root_children = Map.empty\<rparr> = Inr m1"
    and step: "forEach_body m1 r = Inr m2"
    and post: "forEach ys m2 = Inr tree"
    unfolding fetchMusic_def by (rule forEach_split)
  have "track_at m1 (item_artist r) (item_album r) (item_title r) = None"
    using forEach_no_new_track [OF pre track_at_empty assms(4)] .
  with assms(2,3) have "track_at m2 (item_artist r) (item_album r) (item_title r) =
      Some \<lparr>track_name = item_title r, track_file = the (item_file r)\<rparr>"
    by (simp add: track_at_body [OF step])
  from forEach_keeps_track [OF post this assms(5)] show ?thesis .
qed

text \<open>
  The theorem at two records with the same artist, album and title: the node holds the
  path of the first.
\<close>

theorem first_record_wins_witness:
  "\<exists>tree.
     fetchMusic
       [track_item ''a.mp3'' (Some ''X'') (Some ''Y'') (Some ''Z''),
        track_item ''b.mp3'' (Some ''X'') (Some ''Y'') (Some ''Z'')] = Inr tree
     \<and> track_at tree ''X'' ''Y'' ''Z'' = Some \<lparr>track_name = ''Z'', track_file = ''a.mp3''\<rparr>"
proof -
  let ?a = "track_item ''a.mp3'' (Some ''X'') (Some ''Y'') (Some ''Z'')"
  let ?b = "track_item ''b.mp3'' (Some ''X'') (Some ''Y'') (Some ''Z'')"
  obtain tree where built: "fetchMusic ([] @ ?a # [?b]) = Inr tree"
    by (simp add: run_defs)
  have "track_at tree (item_artist ?a) (item_album ?a) (item_title ?a) =
      Some \<lparr>track_name = item_title ?a, track_file = the (item_file ?a)\<rparr>"
    by (rule first_record_wins [OF built])
      (simp_all add: read_defs run_defs)
  then have "track_at tree ''X'' ''Y'' ''Z'' =
      Some \<lparr>track_name = ''Z'', track_file = ''a.mp3''\<rparr>"
    by (simp add: read_defs run_defs)
  with built show ?thesis by auto
qed

text \<open>
  C1 as stated fails: of two records with the same artist, album and title the tree keeps
  the file path of the first, not of the last.
\<close>

theorem last_write_wins_counterexample:
  "\<exists>tree.
     fetchMusic
       [track_item ''a.mp3'' (Some ''X'') (Some ''Y'') (Some ''Z''),
        track_item ''b.mp3'' (Some ''X'') (Some ''Y'') (Some ''Z'')] = Inr tree
     \<and> map_option track_file (track_at tree ''X'' ''Y'' ''Z'') = Some ''a.mp3''
     \<and> map_option track_file (track_at tree ''X'' ''Y'' ''Z'') \<noteq> Some ''b.mp3''"
  by (simp add: run_defs read_defs)

text \<open>
  C2, as the code has it. For a record \<open>r\<close> with a non-empty file path and metadata: if
  the build completes (no exception, and no directory entry with the base name
  \<open>__proto__\<close>), the resolved title is not a name inherited from \<open>Object.prototype\<close>,
  and no directory entry after \<open>r\<close> has the resolved artist as its base name, then the
  tree has a node under the resolved artist, under it a node under
  the resolved album, and under that a TrackNode under the resolved title; each node's
  name is its key (so the labels of the path are the resolved fields, and the keyed path
  is the only one to the node), and the file path of the TrackNode is that of a record
  of the input with the same resolved artist, album and title.
\<close>

theorem track_record_reachable:
  assumes "fetchMusic (xs @ r # ys) = Inr tree"
    and "is_track r"
    and "item_title r \<notin> set object_prototype_keys"
    and "\<forall>y\<in>set ys. is_directory y \<longrightarrow> dir_key y \<noteq> Some (item_artist r)"
  shows "\<exists>artistNode albumNode trackNode.
     root_children tree (item_artist r) = Some artistNode
     \<and> node_name artistNode = item_artist r
     \<and> node_children artistNode (item_album r) = Some albumNode
     \<and> album_name albumNode = item_album r
     \<and> album_children albumNode (item_title r) = Some trackNode
     \<and> track_name trackNode = item_title r
     \<and> (\<exists>x\<in>set (xs @ r # ys). is_track x \<and> item_artist x = item_artist r
           \<and> item_album x = item_album r \<and> item_title x = item_title r
           \<and> track_file trackNode = the (item_file x))"
  using assms by (rule record_is_reachable)

text \<open>
  The theorem at a record without artist and title, followed by a directory entry of
  another name: the path is Unknown Artist, Y, a.mp3.
\<close>

theorem track_record_reachable_witness:
  "\<exists>tree artistNode albumNode trackNode.
     fetchMusic
       [track_item ''music/a.mp3'' None (Some ''Y'') None, directory_item ''Live''] = Inr tree
     \<and> root_children tree ''Unknown Artist'' = Some artistNode
     \<and> node_name artistNode = ''Unknown Artist''
     \<and> node_children artistNode ''Y'' = Some albumNode
     \<and> album_name albumNode = ''Y''
     \<and> album_children albumNode ''a.mp3'' = Some trackNode
     \<and> track_name trackNode = ''a.mp3''"
proof -
  let ?r = "track_item ''music/a.mp3'' None (Some ''Y'') None"
  let ?d = "directory_item ''Live''"
  obtain tree where built: "fetchMusic ([] @ ?r # [?d]) = Inr tree"
    by (simp add: run_defs)
  have "\<exists>artistNode albumNode trackNode.
     root_children tree (item_artist ?r) = Some artistNode
     \<and> node_name artistNode = item_artist ?r
     \<and> node_children artistNode (item_album ?r) = Some albumNode
     \<and> album_name albumNode = item_album ?r
     \<and> album_children albumNode (item_title ?r) = Some trackNode
     \<and> track_name trackNode = item_title ?r
     \<and> (\<exists>x\<in>set ([] @ ?r # [?d]). is_track x \<and> item_artist x = item_artist ?r
           \<and> item_album x = item_album ?r \<and> item_title x = item_title ?r
           \<and> track_file trackNode = the (item_file x))"
    by (rule track_record_reachable [OF built])
      (simp_all add: read_defs run_defs)
  moreover have "item_artist ?r = ''Unknown Artist''" "item_album ?r = ''Y''"
    "item_title ?r = ''a.mp3''"
    by (simp_all add: read_defs run_defs)
  ultimately obtain artistNode albumNode trackNode where
    "root_children tree ''Unknown Artist'' = Some artistNode"
    "node_name artistNode = ''Unknown Artist''"
    "node_children artistNode ''Y'' = Some albumNode"
    "album_name albumNode = ''Y''"
    "album_children albumNode ''a.mp3'' = Some trackNode"
    "track_name trackNode = ''a.mp3''"
    by auto
  with built show ?thesis by auto
qed

text \<open>
  C2 as stated fails: a record with file path and metadata whose artist is the base name
  of a later directory entry has no TrackNode in the built tree; the directory literal
  has taken the artist's place.
\<close>

theorem track_record_reachable_counterexample:
  "\<exists>tree.
     fetchMusic
       [track_item ''a.mp3'' (Some ''X'') (Some ''Y'') (Some ''Z''), directory_item ''X'']
       = Inr tree
     \<and> track_at tree ''X'' ''Y'' ''Z'' = None
     \<and> root_children tree ''X'' =
         Some \<lparr>node_name = ''X'', node_extended = None, node_children = Map.empty\<rparr>"
  by (simp add: run_defs read_defs)

text \<open>
  C4, as the code has it. A directory entry is stored in the same dictionary as the
  artists, under its base name, replacing what was stored there. Let the build complete
  (no exception, and no directory entry with the base name \<open>__proto__\<close>) and let \<open>k\<close> be
  the base name of the directory entry \<open>d\<close>. If no record after \<open>d\<close> has \<open>k\<close> as its
  resolved artist, the built tree holds under \<open>k\<close> a node with that name, no \<open>extended\<close>
  field and an empty children mapping, whatever the entries before \<open>d\<close> were. If a record
  \<open>r\<close> after \<open>d\<close> has \<open>k\<close> as its resolved artist, its resolved title is not a name
  inherited from \<open>Object.prototype\<close>, and no directory entry after \<open>r\<close> has the base name
  \<open>k\<close>, then \<open>r\<close> is nested under a directory node: the node under \<open>k\<close> has the name \<open>k\<close>
  and no \<open>extended\<close> field, and it holds the album of \<open>r\<close> and under it a TrackNode for
  the title of \<open>r\<close>.
\<close>

theorem directory_entry_node:
  assumes "fetchMusic (xs @ d # ys) = Inr tree"
    and "is_directory d"
    and "dir_key d = Some k"
  shows "((\<forall>y\<in>set ys. is_track y \<longrightarrow> item_artist y \<noteq> k) \<longrightarrow>
       root_children tree k =
         Some \<lparr>node_name = k, node_extended = None, node_children = Map.empty\<rparr>)
     \<and> (ys = us @ r # zs \<and> is_track r \<and> item_artist r = k
          \<and> item_title r \<notin> set object_prototype_keys
          \<and> (\<forall>z\<in>set zs. is_directory z \<longrightarrow> dir_key z \<noteq> Some k) \<longrightarrow>
        (\<exists>node albumNode trackNode.
           root_children tree k = Some node
           \<and> node_name node = k
           \<and> node_extended node = None
           \<and> node_children node (item_album r) = Some albumNode
           \<and> album_name albumNode = item_album r
           \<and> album_children albumNode (item_title r) = Some trackNode
           \<and> track_name trackNode = item_title r))"
proof (intro conjI impI)
  from assms(1) obtain m1 m2 where
    step: "forEach_body m1 d = Inr m2" and post: "forEach ys m2 = Inr tree"
    unfolding fetchMusic_def by (rule forEach_split)
  from assms(2) have "\<not> (is_track d \<and> item_artist d = k)"
    by (simp add: is_directory_def)
  from root_body [OF step this] assms(2,3)
  have stored: "root_children m2 k =
      Some \<lparr>node_name = k, node_extended = None, node_children = Map.empty\<rparr>"
    by simp
  {
    assume "\<forall>y\<in>set ys. is_track y \<longrightarrow> item_artist y \<noteq> k"
    from forEach_keeps_directory [OF post stored this]
    show "root_children tree k =
        Some \<lparr>node_name = k, node_extended = None, node_children = Map.empty\<rparr>" .
  }
  assume later: "ys = us @ r # zs \<and> is_track r \<and> item_artist r = k
      \<and> item_title r \<notin> set object_prototype_keys
      \<and> (\<forall>z\<in>set zs. is_directory z \<longrightarrow> dir_key z \<noteq> Some k)"
  then have built: "fetchMusic ((xs @ d # us) @ r # zs) = Inr tree"
    using assms(1) by simp
  from later have r: "is_track r" "item_title r \<notin> set object_prototype_keys"
    "\<forall>z\<in>set zs. is_directory z \<longrightarrow> dir_key z \<noteq> Some (item_artist r)"
    by simp_all
  from record_is_reachable [OF built r] later obtain node albumNode trackNode where
    path: "root_children tree k = Some node" "node_name node = k"
      "node_children node (item_album r) = Some albumNode"
      "album_name albumNode = item_album r"
      "album_children albumNode (item_title r) = Some trackNode"
      "track_name trackNode = item_title r"
    by auto
  from stored have "map_option node_extended (root_children m2 k) = Some None"
    by simp
  from extended_forEach [OF post this] path(1) have "node_extended node = None"
    by simp
  with path show "\<exists>node albumNode trackNode.
      root_children tree k = Some node
      \<and> node_name node = k
      \<and> node_extended node = None
      \<and> node_children node (item_album r) = Some albumNode
      \<and> album_name albumNode = item_album r
      \<and> album_children albumNode (item_title r) = Some trackNode
      \<and> track_name trackNode = item_title r"
    by blast
qed

text \<open>
  The theorem at the scenario of the specification, one track and the directory Live,
  and at a directory X followed by a track of the artist X.
\<close>

theorem directory_entry_node_witness:
  "(\<exists>tree.
      fetchMusic
        [track_item ''a.mp3'' (Some ''X'') (Some ''Y'') (Some ''Z''),
         directory_item ''lib/Live/''] = Inr tree
      \<and> root_children tree ''Live'' =
          Some \<lparr>node_name = ''Live'', node_extended = None, node_children = Map.empty\<rparr>)
   \<and> (\<exists>tree node albumNode trackNode.
      fetchMusic
        [directory_item ''X'', track_item ''a.mp3'' (Some ''X'') (Some ''Y'') (Some ''Z'')]
        = Inr tree
      \<and> root_children tree ''X'' = Some node
      \<and> node_name node = ''X''
      \<and> node_extended node = None
      \<and> node_children node ''Y'' = Some albumNode
      \<and> album_name albumNode = ''Y''
      \<and> album_children albumNode ''Z'' = Some trackNode
      \<and> track_name trackNode = ''Z'')"
proof -
  let ?r = "track_item ''a.mp3'' (Some ''X'') (Some ''Y'') (Some ''Z'')"
  let ?d = "directory_item ''lib/Live/''"
  let ?x = "directory_item ''X''"
  obtain tree where built: "fetchMusic ([?r] @ ?d # []) = Inr tree"
    by (simp add: run_defs)
  have d: "is_directory ?d" "dir_key ?d = Some ''Live''"
    by (simp_all add: read_defs run_defs)
  from directory_entry_node [OF built d, of "[]" ?r "[]"]
  have "root_children tree ''Live'' =
      Some \<lparr>node_name = ''Live'', node_extended = None, node_children = Map.empty\<rparr>"
    by simp
  with built have first: "\<exists>tree.
      fetchMusic [?r, ?d] = Inr tree
      \<and> root_children tree ''Live'' =
          Some \<lparr>node_name = ''Live'', node_extended = None, node_children = Map.empty\<rparr>"
    by auto
  obtain tree' where built': "fetchMusic ([] @ ?x # [?r]) = Inr tree'"
    by (simp add: run_defs)
  have x: "is_directory ?x" "dir_key ?x = Some ''X''"
    by (simp_all add: read_defs run_defs)
  have r: "is_track ?r" "item_artist ?r = ''X''" "item_album ?r = ''Y''"
    "item_title ?r = ''Z''" "''Z'' \<notin> set object_prototype_keys"
    by (simp_all add: read_defs run_defs)
  from directory_entry_node [OF built' x, of "[]" ?r "[]"] r
  have "\<exists>node albumNode trackNode.
      root_children tree' ''X'' = Some node
      \<and> node_name node = ''X''
      \<and> node_extended node = None
      \<and> node_children node ''Y'' = Some albumNode
      \<and> album_name albumNode = ''Y''
      \<and> album_children albumNode ''Z'' = Some trackNode
      \<and> track_name trackNode = ''Z''"
    by simp
  with built' have second: "\<exists>tree node albumNode trackNode.
      fetchMusic [?x, ?r] = Inr tree
      \<and> root_children tree ''X'' = Some node
      \<and> node_name node = ''X''
      \<and> node_extended node = None
      \<and> node_children node ''Y'' = Some albumNode
      \<and> album_name albumNode = ''Y''
      \<and> album_children albumNode ''Z'' = Some trackNode
      \<and> track_name trackNode = ''Z''"
    by auto
  from first second show ?thesis by blast
qed

text \<open>
  C4 as stated fails in both directions. A directory entry named like an artist that is
  already in the tree replaces the ArtistNode (its albums are gone); and a record whose
  artist is the name of a directory node already in the tree is nested under that node.
\<close>

theorem directory_not_merged_counterexample:
  "(\<exists>before after.
      fetchMusic [track_item ''a.mp3'' (Some ''X'') (Some ''Y'') (Some ''Z'')] = Inr before
      \<and> album_at before ''X'' ''Y'' \<noteq> None
      \<and> fetchMusic
          [track_item ''a.mp3'' (Some ''X'') (Some ''Y'') (Some ''Z''), directory_item ''X'']
          = Inr after
      \<and> root_children after ''X'' =
          Some \<lparr>node_name = ''X'', node_extended = None, node_children = Map.empty\<rparr>)
   \<and> (\<exists>tree.
      fetchMusic
        [directory_item ''X'', track_item ''a.mp3'' (Some ''X'') (Some ''Y'') (Some ''Z'')]
        = Inr tree
      \<and> map_option node_extended (root_children tree ''X'') = Some None
      \<and> track_at tree ''X'' ''Y'' ''Z'' = Some \<lparr>track_name = ''Z'', track_file = ''a.mp3''\<rparr>)"
  by (simp add: run_defs read_defs)

text \<open>
  C10. Let \<open>r\<close> be a record with a non-empty file path \<open>f\<close> and a metadata object \<open>m\<close>,
  and let \<open>a\<close>, \<open>al\<close> and \<open>t\<close> be what the specification asks for: the artist, album and
  title of \<open>m\<close> where they are truthy, and Unknown Artist, Unknown Album and the base name
  of \<open>f\<close> where they are falsy, be it absent, the empty string, \<open>null\<close>, \<open>false\<close> or \<open>0\<close>.
  Then the builder resolves the three fields to \<open>a\<close>, \<open>al\<close> and \<open>t\<close>, and its loop body
  does with a falsy field exactly what it does with the field absent. And the record is
  stored under these names: if the build completes, \<open>t\<close> is not a name inherited from
  \<open>Object.prototype\<close> and no directory entry after \<open>r\<close> has the base name \<open>a\<close>, the built
  tree has the node \<open>a\<close>, under it the node \<open>al\<close>, and under that a TrackNode \<open>t\<close>, each
  named by its key.
\<close>

theorem falsy_fields_default:
  assumes "item_file r = Some f" and "f \<noteq> []" and "item_metadata r = Some m"
    and "a = (if falsy (artist m) then ''Unknown Artist'' else the_string (artist m))"
    and "al = (if falsy (album m) then ''Unknown Album'' else the_string (album m))"
    and "t = (if falsy (title m) then basename f else the_string (title m))"
  shows "resolve_artist m = a \<and> resolve_album m = al \<and> resolve_title f m = t
     \<and> (falsy (artist m) \<longrightarrow>
          forEach_body musicdata r
            = forEach_body musicdata (r\<lparr>item_metadata := Some (m\<lparr>artist := Absent\<rparr>)\<rparr>))
     \<and> (falsy (album m) \<longrightarrow>
          forEach_body musicdata r
            = forEach_body musicdata (r\<lparr>item_metadata := Some (m\<lparr>album := Absent\<rparr>)\<rparr>))
     \<and> (falsy (title m) \<longrightarrow>
          forEach_body musicdata r
            = forEach_body musicdata (r\<lparr>item_metadata := Some (m\<lparr>title := Absent\<rparr>)\<rparr>))
     \<and> (fetchMusic (xs @ r # ys) = Inr tree
          \<and> t \<notin> set object_prototype_keys
          \<and> (\<forall>y\<in>set ys. is_directory y \<longrightarrow> dir_key y \<noteq> Some a) \<longrightarrow>
        (\<exists>artistNode albumNode trackNode.
           root_children tree a = Some artistNode
           \<and> node_name artistNode = a
           \<and> node_children artistNode al = Some albumNode
           \<and> album_name albumNode = al
           \<and> album_children albumNode t = Some trackNode
           \<and> track_name trackNode = t))"
proof (intro conjI impI)
  show a: "resolve_artist m = a" and al: "resolve_album m = al"
    and t: "resolve_title f m = t"
    using assms(4-6) by (simp_all add: resolved_fields)
  show "forEach_body musicdata r
      = forEach_body musicdata (r\<lparr>item_metadata := Some (m\<lparr>artist := Absent\<rparr>)\<rparr>)"
    if "falsy (artist m)"
    using assms(3) falsy_as_absent [OF that]
    by (simp add: forEach_body_def resolve_artist_def resolve_album_def resolve_title_def
        cong: sum.case_cong)
  show "forEach_body musicdata r
      = forEach_body musicdata (r\<lparr>item_metadata := Some (m\<lparr>album := Absent\<rparr>)\<rparr>)"
    if "falsy (album m)"
    using assms(3) falsy_as_absent [OF that]
    by (simp add: forEach_body_def resolve_artist_def resolve_album_def resolve_title_def
        cong: sum.case_cong)
  show "forEach_body musicdata r
      = forEach_body musicdata (r\<lparr>item_metadata := Some (m\<lparr>title := Absent\<rparr>)\<rparr>)"
    if "falsy (title m)"
    using assms(3) falsy_as_absent [OF that]
    by (simp add: forEach_body_def resolve_artist_def resolve_album_def resolve_title_def
        cong: sum.case_cong)
  assume build: "fetchMusic (xs @ r # ys) = Inr tree
      \<and> t \<notin> set object_prototype_keys
      \<and> (\<forall>y\<in>set ys. is_directory y \<longrightarrow> dir_key y \<noteq> Some a)"
  from assms(1-3) have r: "is_track r"
    by (simp add: is_track_def truthy_def)
  from assms(1,3) a al t have names: "item_artist r = a" "item_album r = al"
    "item_title r = t"
    by (simp_all add: item_artist_def item_album_def item_title_def)
  from build have built: "fetchMusic (xs @ r # ys) = Inr tree"
    and "item_title r \<notin> set object_prototype_keys"
    and "\<forall>y\<in>set ys. is_directory y \<longrightarrow> dir_key y \<noteq> Some (item_artist r)"
    by (simp_all add: names)
  from record_is_reachable [OF built r this(2,3)] names
  show "\<exists>artistNode albumNode trackNode.
      root_children tree a = Some artistNode
      \<and> node_name artistNode = a
      \<and> node_children artistNode al = Some albumNode
      \<and> album_name albumNode = al
      \<and> album_children albumNode t = Some trackNode
      \<and> track_name trackNode = t"
    by auto
qed

text \<open>
  The theorem at a record whose artist is the empty string, whose album is \<open>null\<close> and
  whose title is \<open>0\<close>: it is stored under Unknown Artist, Unknown Album and the base name
  of its file, as the record without the three fields is.
\<close>

theorem falsy_fields_default_witness:
  "(\<exists>tree artistNode albumNode trackNode.
      fetchMusic
        [\<lparr>item_file = Some ''music/a.mp3'',
          item_metadata =
            Some \<lparr>artist = JsonString '''', album = JsonNull, title = JsonZero,
                  year = Absent\<rparr>,
          item_type = None, item_name = None\<rparr>] = Inr tree
      \<and> root_children tree ''Unknown Artist'' = Some artistNode
      \<and> node_name artistNode = ''Unknown Artist''
      \<and> node_children artistNode ''Unknown Album'' = Some albumNode
      \<and> album_name albumNode = ''Unknown Album''
      \<and> album_children albumNode ''a.mp3'' = Some trackNode
      \<and> track_name trackNode = ''a.mp3'')
   \<and> fetchMusic
        [\<lparr>item_file = Some ''music/a.mp3'',
          item_metadata =
            Some \<lparr>artist = JsonString '''', album = JsonNull, title = JsonZero,
                  year = Absent\<rparr>,
          item_type = None, item_name = None\<rparr>]
      = fetchMusic [track_item ''music/a.mp3'' None None None]"
proof -
  let ?m = "\<lparr>artist = JsonString '''', album = JsonNull, title = JsonZero, year = Absent\<rparr>"
  let ?r = "\<lparr>item_file = Some ''music/a.mp3'', item_metadata = Some ?m,
    item_type = None, item_name = None\<rparr>"
  obtain tree where built: "fetchMusic ([] @ ?r # []) = Inr tree"
    by (simp add: run_defs)
  have defaults: "falsy (artist ?m)" "falsy (album ?m)" "falsy (title ?m)"
    "basename ''music/a.mp3'' = ''a.mp3''"
    "''a.mp3'' \<notin> set object_prototype_keys"
    by (simp_all add: falsy_def basename_def object_prototype_keys_def)
  from falsy_fields_default
    [where r = ?r and f = "''music/a.mp3''" and m = ?m and a = "''Unknown Artist''"
      and al = "''Unknown Album''" and t = "''a.mp3''" and xs = "[]" and ys = "[]"
      and tree = tree]
    built defaults
  have "\<exists>artistNode albumNode trackNode.
      root_children tree ''Unknown Artist'' = Some artistNode
      \<and> node_name artistNode = ''Unknown Artist''
      \<and> node_children artistNode ''Unknown Album'' = Some albumNode
      \<and> album_name albumNode = ''Unknown Album''
      \<and> album_children albumNode ''a.mp3'' = Some trackNode
      \<and> track_name trackNode = ''a.mp3''"
    by simp
  with built have "\<exists>tree artistNode albumNode trackNode.
      fetchMusic [?r] = Inr tree
      \<and> root_children tree ''Unknown Artist'' = Some artistNode
      \<and> node_name artistNode = ''Unknown Artist''
      \<and> node_children artistNode ''Unknown Album'' = Some albumNode
      \<and> album_name albumNode = ''Unknown Album''
      \<and> album_children albumNode ''a.mp3'' = Some trackNode
      \<and> track_name trackNode = ''a.mp3''"
    by auto
  moreover have "fetchMusic [?r] = fetchMusic [track_item ''music/a.mp3'' None None None]"
    by (simp add: run_defs)
  ultimately show ?thesis by blast
qed

section \<open>Facts about the playback controller\<close>

lemmas player_defs = playSong_def startProgressBar_def setInterval_def clearInterval_def
  updateRecordBox_def kill_def getSongDuration_def child_error_def child_exit_def
  togglePlayPause_def startup_def basename_def Let_def

lemma tick_paused: "\<not> isPlaying s \<Longrightarrow> tick t s = s"
  by (simp add: tick_def interval_callback_def)

lemma tick_no_duration: "songDuration s \<le> 0 \<Longrightarrow> tick t s = s"
  by (simp add: tick_def interval_callback_def)

lemma tick_playing:
  assumes "t \<in> live_timers s" and "isPlaying s" and "0 < songDuration s"
  shows "elapsedTime (tick t s) = elapsedTime s + 1"
    and "gauge_percent (tick t s) = Some ((elapsedTime s + 1) / songDuration s * 100)"
    and "isPlaying (tick t s)"
    and "songDuration (tick t s) = songDuration s"
    and "elapsedTime s + 1 < songDuration s \<Longrightarrow> t \<in> live_timers (tick t s)"
  using assms
  by (simp_all add: tick_def interval_callback_def clearInterval_def Let_def
      split: option.splits)

lemma ticks_playing:
  assumes "t \<in> live_timers s" and "isPlaying s" and "0 < songDuration s"
    and "elapsedTime s = 0" and "real n < songDuration s + 1"
  shows "elapsedTime ((tick t ^^ n) s) = real n
     \<and> isPlaying ((tick t ^^ n) s)
     \<and> songDuration ((tick t ^^ n) s) = songDuration s
     \<and> (real n < songDuration s \<longrightarrow> t \<in> live_timers ((tick t ^^ n) s))
     \<and> (0 < n \<longrightarrow> gauge_percent ((tick t ^^ n) s) = Some (real n / songDuration s * 100))"
  using assms(5)
proof (induction n)
  case 0
  with assms show ?case by simp
next
  case (Suc n)
  let ?s = "(tick t ^^ n) s"
  from Suc.prems have less: "real n < songDuration s" by simp
  with Suc.IH have e: "elapsedTime ?s = real n" and p: "isPlaying ?s"
    and d: "songDuration ?s = songDuration s" and l: "t \<in> live_timers ?s"
    by simp_all
  from assms(3) d have pos: "0 < songDuration ?s" by simp
  have "elapsedTime (tick t ?s) = real (Suc n)"
    using tick_playing(1) [OF l p pos] e by simp
  moreover have "isPlaying (tick t ?s)"
    by (rule tick_playing(3) [OF l p pos])
  moreover have "songDuration (tick t ?s) = songDuration s"
    using tick_playing(4) [OF l p pos] d by simp
  moreover have "real (Suc n) < songDuration s \<longrightarrow> t \<in> live_timers (tick t ?s)"
    using tick_playing(5) [OF l p pos] e d by simp
  moreover have "gauge_percent (tick t ?s) = Some (real (Suc n) / songDuration s * 100)"
    using tick_playing(2) [OF l p pos] e d by simp
  ultimately show ?case by simp
qed

lemma fold_tick_no_duration: "songDuration s = 0 \<Longrightarrow> fold tick ts s = s"
  by (induction ts) (simp_all add: tick_no_duration)

lemma playSong_started:
  "currentAudio (playSong songPath ReturnsChild p s) = Some (children_spawned s)"
  "isPlaying (playSong songPath ReturnsChild p s)"
  "elapsedTime (playSong songPath ReturnsChild p s) = 0"
  "songDuration (playSong songPath ReturnsChild p s) = getSongDuration p"
  "gauge_percent (playSong songPath ReturnsChild p s) = Some 0"
  "progressBarInterval (playSong songPath ReturnsChild p s) = Some (timers_created s)"
  "live_timers (playSong songPath ReturnsChild p s) = insert (timers_created s) (live_timers s)"
  "listeners (playSong songPath ReturnsChild p s) (children_spawned s) = Some songPath"
  "recordbox (playSong songPath ReturnsChild p s) =
     recordbox s @ [''Now playing: '' @ basename songPath]"
  by (simp_all add: playSong_def startProgressBar_def setInterval_def updateRecordBox_def
      kill_def Let_def split: option.splits)

section \<open>Claims about the playback controller\<close>

text \<open>
  C3, as the code has it. A tick of a live timer while \<open>isPlaying\<close> is true and
  \<open>songDuration > 0\<close> increments \<open>elapsedTime\<close> by exactly 1 and hands the progress bar
  the percent \<open>elapsedTime / songDuration * 100\<close>, without a clamp: the value is at most 100
  when the new \<open>elapsedTime\<close> is at most the duration and above 100 otherwise. From
  \<open>elapsedTime = 0\<close>, after \<open>n \<ge> 1\<close> such ticks with \<open>n < songDuration + 1\<close> the percent
  is \<open>n / songDuration * 100\<close>. A tick while \<open>isPlaying\<close> is false changes nothing.
\<close>

theorem tick_progress:
  "(t \<in> live_timers s \<and> isPlaying s \<and> 0 < songDuration s \<longrightarrow>
      elapsedTime (tick t s) = elapsedTime s + 1
      \<and> gauge_percent (tick t s) = Some (elapsedTime (tick t s) / songDuration s * 100)
      \<and> (elapsedTime (tick t s) \<le> songDuration s \<longrightarrow>
           the (gauge_percent (tick t s)) \<le> 100)
      \<and> (songDuration s < elapsedTime (tick t s) \<longrightarrow>
           100 < the (gauge_percent (tick t s))))
   \<and> (t \<in> live_timers s \<and> isPlaying s \<and> 0 < songDuration s \<and> elapsedTime s = 0
        \<and> 0 < n \<and> real n < songDuration s + 1 \<longrightarrow>
      elapsedTime ((tick t ^^ n) s) = real n
      \<and> gauge_percent ((tick t ^^ n) s) = Some (real n / songDuration s * 100))
   \<and> (\<not> isPlaying s \<longrightarrow> tick t s = s)"
proof (intro conjI impI)
  assume a: "t \<in> live_timers s \<and> isPlaying s \<and> 0 < songDuration s"
  then have l: "t \<in> live_timers s" and p: "isPlaying s" and d: "0 < songDuration s"
    by simp_all
  show e: "elapsedTime (tick t s) = elapsedTime s + 1"
    by (rule tick_playing(1) [OF l p d])
  show g: "gauge_percent (tick t s) = Some (elapsedTime (tick t s) / songDuration s * 100)"
    using tick_playing(2) [OF l p d] e by simp
  {
    assume "elapsedTime (tick t s) \<le> songDuration s"
    with d g show "the (gauge_percent (tick t s)) \<le> 100"
      by (simp add: field_simps)
  }
  {
    assume "songDuration s < elapsedTime (tick t s)"
    with d g show "100 < the (gauge_percent (tick t s))"
      by (simp add: field_simps)
  }
next
  assume a: "t \<in> live_timers s \<and> isPlaying s \<and> 0 < songDuration s \<and> elapsedTime s = 0
      \<and> 0 < n \<and> real n < songDuration s + 1"
  then have l: "t \<in> live_timers s" and p: "isPlaying s" and d: "0 < songDuration s"
    and e: "elapsedTime s = 0" and n: "real n < songDuration s + 1" and pos: "0 < n"
    by simp_all
  from ticks_playing [OF l p d e n] pos
  show "elapsedTime ((tick t ^^ n) s) = real n"
    and "gauge_percent ((tick t ^^ n) s) = Some (real n / songDuration s * 100)"
    by simp_all
next
  assume "\<not> isPlaying s"
  then show "tick t s = s" by (rule tick_paused)
qed

text \<open>
  The theorem at the numbers of the specification: a session of duration 200, 50 ticks
  while playing give 25 percent; and a tick of the paused session changes nothing.
\<close>

theorem tick_progress_witness:
  "elapsedTime
     ((tick 0 ^^ 50) (playSong ''a.mp3'' ReturnsChild (ProbeParsed (Some 200)) startup)) = 50
   \<and> gauge_percent
     ((tick 0 ^^ 50) (playSong ''a.mp3'' ReturnsChild (ProbeParsed (Some 200)) startup))
       = Some 25
   \<and> tick 0 (togglePlayPause
       (playSong ''a.mp3'' ReturnsChild (ProbeParsed (Some 200)) startup))
       = togglePlayPause (playSong ''a.mp3'' ReturnsChild (ProbeParsed (Some 200)) startup)"
proof -
  let ?s = "playSong ''a.mp3'' ReturnsChild (ProbeParsed (Some 200)) startup"
  have s: "0 \<in> live_timers ?s" "isPlaying ?s" "songDuration ?s = 200" "elapsedTime ?s = 0"
    by (simp_all add: playSong_started getSongDuration_def startup_def)
  have paused: "\<not> isPlaying (togglePlayPause ?s)"
    by (simp add: togglePlayPause_def playSong_started updateRecordBox_def kill_def)
  from tick_progress [of 0 ?s 50] s
  have "elapsedTime ((tick 0 ^^ 50) ?s) = 50"
    and "gauge_percent ((tick 0 ^^ 50) ?s) = Some 25"
    by simp_all
  moreover from tick_progress [of 0 "togglePlayPause ?s" 0] paused
  have "tick 0 (togglePlayPause ?s) = togglePlayPause ?s"
    by simp
  ultimately show ?thesis by simp
qed

text \<open>
  C3 as stated fails in its clamp: with a duration of 1.5 seconds the second tick hands
  the progress bar the percent 400/3, which is above 100 and is not
  \<open>min(100, elapsedTime / songDuration * 100)\<close>.
\<close>

theorem percent_clamp_counterexample:
  "gauge_percent
     (tick 0 (tick 0 (playSong ''a.mp3'' ReturnsChild (ProbeParsed (Some (3 / 2))) startup)))
     = Some (400 / 3)
   \<and> (100 :: real) < 400 / 3
   \<and> elapsedTime
     (tick 0 (tick 0 (playSong ''a.mp3'' ReturnsChild (ProbeParsed (Some (3 / 2))) startup)))
     = 2
   \<and> (400 / 3 :: real) \<noteq> min 100 (2 / (3 / 2) * 100)"
  by (simp add: tick_def interval_callback_def player_defs)

text \<open>
  C5, as the code has it. When the child returned by \<open>spawn\<close> reports that it could not
  be started (its \<open>error\<close> event), the text Error playing: followed by the base name is
  shown, and the child stays in \<open>currentAudio\<close>. When \<open>spawn\<close> itself throws, the text is
  Error fetching: followed by the base name, and \<open>currentAudio\<close> is what it was before
  the call.
\<close>

theorem spawn_failure_notification:
  "recordbox (child_error (children_spawned s) (playSong songPath ReturnsChild p s))
     = recordbox (playSong songPath ReturnsChild p s)
         @ [''Error playing: '' @ basename songPath]
   \<and> currentAudio (child_error (children_spawned s) (playSong songPath ReturnsChild p s))
     = Some (children_spawned s)
   \<and> recordbox (playSong songPath Throws p s)
     = recordbox s @ [''Error fetching: '' @ basename songPath]
   \<and> currentAudio (playSong songPath Throws p s) = currentAudio s"
  by (simp add: child_error_def playSong_started updateRecordBox_def)
    (simp add: playSong_def updateRecordBox_def kill_def split: option.splits)

text \<open>
  C5 as stated fails: after a play whose child reports the failure to start, the session
  is still there. \<open>isPlaying\<close> is true, the child is in \<open>currentAudio\<close>, and the timer of
  the session is alive.
\<close>

theorem spawn_failure_counterexample:
  "isPlaying (child_error 0 (playSong ''a.mp3'' ReturnsChild ProbeThrows startup))
   \<and> currentAudio (child_error 0 (playSong ''a.mp3'' ReturnsChild ProbeThrows startup))
       = Some 0
   \<and> live_timers (child_error 0 (playSong ''a.mp3'' ReturnsChild ProbeThrows startup)) = {0}
   \<and> recordbox (child_error 0 (playSong ''a.mp3'' ReturnsChild ProbeThrows startup))
       = [''Now playing: a.mp3'', ''Error playing: a.mp3'']"
  by (simp add: player_defs)

text \<open>
  C6, as the code has it. On the exit event of a child with any code and any signal,
  \<open>isPlaying\<close> becomes false and the timer whose handle is in \<open>progressBarInterval\<close> is
  cancelled (no other timer is); \<open>currentAudio\<close> and \<open>progressBarInterval\<close> keep their
  values. Playback ended: and the base name is shown unless the code is 0.
\<close>

theorem exit_stops_progress:
  assumes "listeners s c = Some songPath"
  shows "isPlaying (child_exit c code signal s) = False
     \<and> live_timers (child_exit c code signal s)
         = live_timers s - set_option (progressBarInterval s)
     \<and> currentAudio (child_exit c code signal s) = currentAudio s
     \<and> progressBarInterval (child_exit c code signal s) = progressBarInterval s
     \<and> recordbox (child_exit c code signal s)
         = recordbox s
             @ (if code = Some 0 then [] else [''Playback ended: '' @ basename songPath])"
  using assms
  by (simp add: child_exit_def clearInterval_def updateRecordBox_def Let_def
      split: option.splits)

text \<open>The theorem at one session whose player exits with code 1.\<close>

theorem exit_stops_progress_witness:
  "isPlaying
     (child_exit 0 (Some 1) None
        (playSong ''a.mp3'' ReturnsChild (ProbeParsed (Some 200)) startup)) = False
   \<and> live_timers
     (child_exit 0 (Some 1) None
        (playSong ''a.mp3'' ReturnsChild (ProbeParsed (Some 200)) startup)) = {}
   \<and> recordbox
     (child_exit 0 (Some 1) None
        (playSong ''a.mp3'' ReturnsChild (ProbeParsed (Some 200)) startup))
       = [''Now playing: a.mp3'', ''Playback ended: a.mp3'']"
proof -
  let ?s = "playSong ''a.mp3'' ReturnsChild (ProbeParsed (Some 200)) startup"
  have l: "listeners ?s 0 = Some ''a.mp3''"
    using playSong_started(8) [of "''a.mp3''" "ProbeParsed (Some 200)" startup]
    by (simp add: startup_def)
  have s: "live_timers ?s = {0}" "progressBarInterval ?s = Some 0"
    "recordbox ?s = [''Now playing: a.mp3'']"
    by (simp_all add: playSong_started startup_def basename_def)
  from exit_stops_progress [OF l, of "Some 1" None] s show ?thesis
    by (simp add: basename_def)
qed

text \<open>
  C6 as stated fails: after the exit of the player, even with code 0, the handle is
  still in \<open>currentAudio\<close>; the next \<open>togglePlayPause\<close> takes the session for paused,
  signals the child and sets \<open>isPlaying\<close> again.
\<close>

theorem exit_keeps_handle_counterexample:
  "currentAudio
     (child_exit 0 (Some 0) None
        (playSong ''a.mp3'' ReturnsChild (ProbeParsed (Some 200)) startup)) = Some 0
   \<and> isPlaying
     (togglePlayPause
        (child_exit 0 (Some 0) None
           (playSong ''a.mp3'' ReturnsChild (ProbeParsed (Some 200)) startup)))
   \<and> signals_sent
     (togglePlayPause
        (child_exit 0 (Some 0) None
           (playSong ''a.mp3'' ReturnsChild (ProbeParsed (Some 200)) startup)))
       = [(0, ''SIGCONT'')]"
  by (simp add: player_defs)

text \<open>
  C7 at its failing input: a second play while the first is playing. \<open>startProgressBar\<close>
  overwrites the handle of the first timer without clearing it, so both timers are alive.
  When the exit event of the first player (killed at line 29) arrives, its listener clears
  the timer of the second session and sets \<open>isPlaying\<close> to false; the first timer stays
  alive.
\<close>

theorem second_play_leaves_two_timers:
  "live_timers
     (playSong ''b.mp3'' ReturnsChild (ProbeParsed (Some 200))
        (playSong ''a.mp3'' ReturnsChild (ProbeParsed (Some 200)) startup)) = {0, 1}
   \<and> signals_sent
     (playSong ''b.mp3'' ReturnsChild (ProbeParsed (Some 200))
        (playSong ''a.mp3'' ReturnsChild (ProbeParsed (Some 200)) startup))
       = [(0, ''SIGTERM'')]
   \<and> live_timers
     (child_exit 0 None (Some ''SIGTERM'')
        (playSong ''b.mp3'' ReturnsChild (ProbeParsed (Some 200))
           (playSong ''a.mp3'' ReturnsChild (ProbeParsed (Some 200)) startup))) = {0}
   \<and> progressBarInterval
     (child_exit 0 None (Some ''SIGTERM'')
        (playSong ''b.mp3'' ReturnsChild (ProbeParsed (Some 200))
           (playSong ''a.mp3'' ReturnsChild (ProbeParsed (Some 200)) startup))) = Some 1"
  by (auto simp: player_defs)

text \<open>
  C8. A prober that cannot be run, or whose output does not parse, gives the duration 0.
  With \<open>songDuration = 0\<close> no sequence of ticks, of whatever timers, changes the state; in
  a session started with such a duration \<open>elapsedTime\<close> stays 0 and the percent of the
  progress bar stays at the 0 that \<open>startProgressBar\<close> set.
\<close>

theorem no_progress_without_duration:
  "getSongDuration ProbeThrows = 0
   \<and> getSongDuration (ProbeParsed None) = 0
   \<and> (songDuration s = 0 \<longrightarrow> fold tick ts s = s)
   \<and> (getSongDuration p = 0 \<longrightarrow>
        elapsedTime (fold tick ts (playSong songPath ReturnsChild p s)) = 0
        \<and> gauge_percent (fold tick ts (playSong songPath ReturnsChild p s)) = Some 0)"
proof (intro conjI impI)
  show "getSongDuration ProbeThrows = 0" "getSongDuration (ProbeParsed None) = 0"
    by (simp_all add: getSongDuration_def)
  show "fold tick ts s = s" if "songDuration s = 0"
    using that by (rule fold_tick_no_duration)
  assume "getSongDuration p = 0"
  then have "songDuration (playSong songPath ReturnsChild p s) = 0"
    by (simp add: playSong_started)
  then have "fold tick ts (playSong songPath ReturnsChild p s)
      = playSong songPath ReturnsChild p s"
    by (rule fold_tick_no_duration)
  then show "elapsedTime (fold tick ts (playSong songPath ReturnsChild p s)) = 0"
    and "gauge_percent (fold tick ts (playSong songPath ReturnsChild p s)) = Some 0"
    by (simp_all add: playSong_started)
qed

text \<open>The theorem at a session whose prober printed no number, and three ticks.\<close>

theorem no_progress_without_duration_witness:
  "fold tick [0, 0, 0] (playSong ''a.mp3'' ReturnsChild (ProbeParsed None) startup)
     = playSong ''a.mp3'' ReturnsChild (ProbeParsed None) startup
   \<and> elapsedTime
       (fold tick [0, 0, 0] (playSong ''a.mp3'' ReturnsChild (ProbeParsed None) startup)) = 0
   \<and> gauge_percent
       (fold tick [0, 0, 0] (playSong ''a.mp3'' ReturnsChild (ProbeParsed None) startup))
       = Some 0"
proof -
  let ?s = "playSong ''a.mp3'' ReturnsChild (ProbeParsed None) startup"
  have d: "songDuration ?s = 0" "getSongDuration (ProbeParsed None) = 0"
    by (simp_all add: playSong_started getSongDuration_def)
  from no_progress_without_duration
      [where s = ?s and ts = "[0, 0, 0]" and p = "ProbeParsed None" and songPath = "''a.mp3''"] d
  have "fold tick [0, 0, 0] ?s = ?s"
    by simp
  moreover
  from no_progress_without_duration
      [where s = startup and ts = "[0, 0, 0]" and p = "ProbeParsed None"
        and songPath = "''a.mp3''"] d
  have "elapsedTime (fold tick [0, 0, 0] ?s) = 0"
    and "gauge_percent (fold tick [0, 0, 0] ?s) = Some 0"
    by simp_all
  ultimately show ?thesis by simp
qed

text \<open>
  C9. With no child in \<open>currentAudio\<close>, \<open>n\<close> calls of \<open>togglePlayPause\<close> leave every
  variable of the module as it was and show No audio playing \<open>n\<close> times.
\<close>

theorem toggle_without_session:
  assumes "currentAudio s = None"
  shows "(togglePlayPause ^^ n) s
     = s\<lparr>recordbox := recordbox s @ replicate n ''No audio playing''\<rparr>"
proof (induction n)
  case 0
  show ?case by simp
next
  case (Suc n)
  with assms show ?case
    by (simp add: togglePlayPause_def updateRecordBox_def replicate_append_same)
qed

text \<open>The theorem at three calls right after the start of the program.\<close>

theorem toggle_without_session_witness:
  "(togglePlayPause ^^ 3) startup
     = startup\<lparr>recordbox :=
         [''No audio playing'', ''No audio playing'', ''No audio playing'']\<rparr>"
proof -
  have "currentAudio startup = None" by (simp add: startup_def)
  from toggle_without_session [OF this, of 3] show ?thesis
    by (simp add: startup_def numeral_3_eq_3)
qed

end
